theory Spec2Isabelle
  imports Main
begin

section \<open>JavaScript built-ins used by blockchain.js\<close>

text \<open>
  The source reads the clock with \<^verbatim>\<open>new Date().getTime().toString().slice(0, -3)\<close>,
  and reads a timestamp back with \<^verbatim>\<open>parseInt(message.split(":")[1])\<close>. A JavaScript
  string is a sequence of UTF-16 code units; a code unit is modelled by its number
  (numbers from \<open>2^16\<close> on are no code unit, and nothing here treats them as white
  space, sign or digit). \<open>str\<close> gives the string of an ASCII literal. JavaScript numbers
  are modelled as \<^typ>\<open>int\<close> (every clock reading and every height is far below
  \<open>2^53\<close>), and \<^verbatim>\<open>NaN\<close> and \<^verbatim>\<open>undefined\<close> as \<open>None\<close>.
\<close>

type_synonym js_string = "nat list"

definition str :: "string \<Rightarrow> js_string" where
  "str s = map of_char s"

fun nat_digits :: "nat \<Rightarrow> js_string" where
  \<comment> \<open>the decimal digits; 48 is the code unit of the digit 0\<close>
  "nat_digits n =
     (if n < 10 then [48 + n]
      else nat_digits (n div 10) @ [48 + n mod 10])"

declare nat_digits.simps [simp del]

definition toString :: "int \<Rightarrow> js_string" where
  \<comment> \<open>\<^verbatim>\<open>Number.prototype.toString()\<close> of an integer\<close>
  "toString i = (if i < 0 then str ''-'' @ nat_digits (nat (- i)) else nat_digits (nat i))"

definition slice :: "js_string \<Rightarrow> int \<Rightarrow> int \<Rightarrow> js_string" where
  \<comment> \<open>\<^verbatim>\<open>s.slice(start, end)\<close>: a negative index counts from the end, both are clamped\<close>
  "slice s start end' =
     (let len = int (length s);
          from = (if start < 0 then max (len + start) 0 else min start len);
          to = (if end' < 0 then max (len + end') 0 else min end' len)
      in take (nat (to - from)) (drop (nat from) s))"

fun split_on :: "nat \<Rightarrow> js_string \<Rightarrow> js_string list" where
  \<comment> \<open>\<^verbatim>\<open>s.split(sep)\<close> for a separator of one code unit\<close>
  "split_on sep [] = [[]]"
| "split_on sep (c # cs) =
     (if c = sep then [] # split_on sep cs
      else (case split_on sep cs of
              w # ws \<Rightarrow> (c # w) # ws
            | [] \<Rightarrow> [[c]]))"

definition index_at :: "'a list \<Rightarrow> nat \<Rightarrow> 'a option" where
  \<comment> \<open>\<^verbatim>\<open>xs[i]\<close>: \<^verbatim>\<open>undefined\<close> out of range\<close>
  "index_at xs i = (if i < length xs then Some (xs ! i) else None)"

definition is_white :: "nat \<Rightarrow> bool" where
  \<comment> \<open>the white space and line terminators that \<^verbatim>\<open>parseInt\<close> skips: TAB, LF, VT, FF,
      CR, the space, the no-break space, the byte order mark U+FEFF, the line and
      paragraph separators U+2028 and U+2029, and the other space separators of Unicode
      (U+1680, U+2000 to U+200A, U+202F, U+205F, U+3000)\<close>
  "is_white c =
     (c = 0x09 \<or> c = 0x0A \<or> c = 0x0B \<or> c = 0x0C \<or> c = 0x0D \<or> c = 0x20 \<or> c = 0xA0
      \<or> c = 0x1680 \<or> (0x2000 \<le> c \<and> c \<le> 0x200A) \<or> c = 0x2028 \<or> c = 0x2029
      \<or> c = 0x202F \<or> c = 0x205F \<or> c = 0x3000 \<or> c = 0xFEFF)"

definition digit_of :: "nat \<Rightarrow> nat option" where
  \<comment> \<open>the value of a digit or letter: 0 to 9, a to z, A to Z\<close>
  "digit_of n =
     (if 48 \<le> n \<and> n \<le> 57 then Some (n - 48)
      else if 97 \<le> n \<and> n \<le> 122 then Some (n - 87)
      else if 65 \<le> n \<and> n \<le> 90 then Some (n - 55)
      else None)"

definition radix_digit :: "nat \<Rightarrow> nat \<Rightarrow> bool" where
  "radix_digit R c = (case digit_of c of Some d \<Rightarrow> d < R | None \<Rightarrow> False)"

definition digit_val :: "nat \<Rightarrow> nat" where
  "digit_val c = (case digit_of c of Some d \<Rightarrow> d | None \<Rightarrow> 0)"

definition parseInt :: "js_string option \<Rightarrow> int option" where
  \<comment> \<open>\<^verbatim>\<open>parseInt(x)\<close> with no radix: \<^verbatim>\<open>undefined\<close> is first converted to the text
      "undefined"; leading white space is skipped, a sign is read, a \<^verbatim>\<open>0x\<close> prefix
      selects radix 16, and the longest prefix of digits is the value. No digit at all
      gives \<^verbatim>\<open>NaN\<close>.\<close>
  "parseInt x =
     (let inputString = (case x of None \<Rightarrow> str ''undefined'' | Some s \<Rightarrow> s);
          S = dropWhile is_white inputString;
          sign = (if take 1 S = str ''-'' then - 1 else (1::int));
          S1 = (if take 1 S = str ''-'' \<or> take 1 S = str ''+'' then drop 1 S else S);
          hex = (take 2 S1 = str ''0x'' \<or> take 2 S1 = str ''0X'');
          R = (if hex then 16 else (10::nat));
          S2 = (if hex then drop 2 S1 else S1);
          Z = takeWhile (radix_digit R) S2
      in if Z = [] then None
         else Some (sign * int (foldl (\<lambda>a c. a * R + digit_val c) 0 Z)))"

definition now_seconds :: "int \<Rightarrow> js_string" where
  \<comment> \<open>\<^verbatim>\<open>new Date().getTime().toString().slice(0, -3)\<close>, the clock reading
      \<^verbatim>\<open>getTime()\<close> (milliseconds) being the argument\<close>
  "now_seconds now = slice (toString now) 0 (- 3)"

section \<open>Promises\<close>

text \<open>
  Every method of the class returns \<^verbatim>\<open>new Promise((resolve, reject) => ...)\<close>. Calling
  \<^verbatim>\<open>resolve\<close> or \<^verbatim>\<open>reject\<close> settles the promise only if it is still pending, and does
  not leave the executor: the statements after it still run. A promise is modelled by
  its state, \<open>None\<close> while pending.
\<close>

datatype log_entry =
  ChainBroken int
  \<comment> \<open>\<^verbatim>\<open>Chain is broken at Block ${block.height}. It's 'previousBlockHash' is different
      to the previous blocks hash!\<close>\<close>

datatype error =
  ExpiredRequest
  \<comment> \<open>\<^verbatim>\<open>"The signature is more than 5 minutes old so will not be used"\<close>\<close>
| InvalidSignature
  \<comment> \<open>\<^verbatim>\<open>"The message is not valid!"\<close>\<close>
| NotFound
  \<comment> \<open>\<^verbatim>\<open>"Hash not found in current chain"\<close>\<close>
| IntegrityErrors "log_entry list"
  \<comment> \<open>\<^verbatim>\<open>reject(validateErrors)\<close>\<close>
| ReferenceError
  \<comment> \<open>reading the undeclared variable \<^verbatim>\<open>height\<close>\<close>
| TypeError
  \<comment> \<open>reading a property of \<^verbatim>\<open>undefined\<close>\<close>
| VerifierError
  \<comment> \<open>an exception thrown by the signature verifier\<close>
| DecodeError
  \<comment> \<open>a payload that does not decode\<close>

type_synonym 'a promise = "(error + 'a) option"

definition resolve :: "'a \<Rightarrow> 'a promise \<Rightarrow> 'a promise" where
  "resolve v p = (case p of None \<Rightarrow> Some (Inr v) | Some r \<Rightarrow> Some r)"

definition reject :: "error \<Rightarrow> 'a promise \<Rightarrow> 'a promise" where
  "reject e p = (case p of None \<Rightarrow> Some (Inl e) | Some r \<Rightarrow> Some r)"

section \<open>Blocks\<close>

record block =
  hash :: "js_string option"
  height :: int
  body :: js_string
  time :: js_string
  previousBlockHash :: "js_string option"

text \<open>
  The object handed to \<^verbatim>\<open>new BlockClass.Block(...)\<close>: \<^verbatim>\<open>{ data: "Genesis Block" }\<close> for
  the genesis block and \<^verbatim>\<open>{ address, message, signature, star }\<close> for a submission. A key
  the object does not have reads as \<^verbatim>\<open>undefined\<close>, here \<open>None\<close>.
\<close>

record 'star payload =
  data :: "js_string option"
  address :: "js_string option"
  message :: "js_string option"
  signature :: "js_string option"
  star :: "'star option"

definition genesis_payload :: "'star payload" where
  "genesis_payload =
     \<lparr>data = Some (str ''Genesis Block''), address = None, message = None, signature = None,
      star = None\<rparr>"

definition star_payload :: "js_string \<Rightarrow> js_string \<Rightarrow> js_string \<Rightarrow> 'star \<Rightarrow> 'star payload" where
  "star_payload addr msg sig st =
     \<lparr>data = None, address = Some addr, message = Some msg, signature = Some sig,
      star = Some st\<rparr>"

text \<open>
  The external collaborators are parameters of the model:
  \<^item> \<open>digest\<close> is \<^verbatim>\<open>SHA256(JSON.stringify(block)).toString()\<close>, a function of the whole
    block object as it stands when it is serialised;
  \<^item> \<open>verify\<close> is \<^verbatim>\<open>bitcoinMessage.verify(message, address, signature)\<close>, which returns
    a boolean or throws (\<open>None\<close>);
  \<^item> \<open>enc\<close> and \<open>dec\<close> are the encoding of a payload into a block body and its
    decoding, which fails (\<open>None\<close>) on a body that encodes no payload.
\<close>

type_synonym digest = "block \<Rightarrow> js_string"
type_synonym verifier = "js_string \<Rightarrow> js_string \<Rightarrow> js_string \<Rightarrow> bool option"
type_synonym 'star encoder = "'star payload \<Rightarrow> js_string"
type_synonym 'star decoder = "js_string \<Rightarrow> 'star payload option"

definition new_Block :: "'star encoder \<Rightarrow> 'star payload \<Rightarrow> block" where
  \<comment> \<open>Modelled from the spec: the constructor of the Block class (block.js). A new
      record holds the encoded payload; its hash and its predecessor hash are absent,
      and height and timestamp are assigned when it is appended.\<close>
  "new_Block enc d =
     \<lparr>hash = None, height = 0, body = enc d, time = (str ''0''), previousBlockHash = None\<rparr>"

definition validate :: "digest \<Rightarrow> block \<Rightarrow> bool" where
  \<comment> \<open>Modelled from the spec: \<^verbatim>\<open>block.validate()\<close> of the Block class (block.js)
      recomputes the digest over the record's content, the stored hash excluded, and
      compares it to the stored hash.\<close>
  "validate digest b = (hash b = Some (digest (b\<lparr>hash := None\<rparr>)))"


section \<open>The Blockchain class\<close>

record blockchain =
  chain :: "block list"
  chainHeight :: int
  \<comment> \<open>\<^verbatim>\<open>this.height\<close>; renamed, \<open>height\<close> being the field of a block\<close>

subsection \<open>validateChain\<close>

definition isNextBlock :: "block list \<Rightarrow> block \<Rightarrow> bool" where
  \<comment> \<open>\<^verbatim>\<open>self.chain.find((previousBlock) => previousBlock.hash === block.previousBlockHash)
      ?.height === block.height - 1\<close>\<close>
  "isNextBlock ch b =
     (case find (\<lambda>previousBlock. hash previousBlock = previousBlockHash b) ch of
        None \<Rightarrow> False
      | Some previousBlock \<Rightarrow> height previousBlock = height b - 1)"

fun forEach_validate ::
  "digest \<Rightarrow> block list \<Rightarrow> block list \<Rightarrow> log_entry list \<Rightarrow> error + log_entry list" where
  \<comment> \<open>the \<^verbatim>\<open>forEach\<close> of \<^verbatim>\<open>validateChain\<close> over the blocks still to visit. The template
      \<^verbatim>\<open>`Block ${height} is not valid!`\<close> reads \<^verbatim>\<open>height\<close>, which no scope declares:
      evaluating it throws a ReferenceError, which leaves the loop.\<close>
  "forEach_validate digest ch [] errorLog = Inr errorLog"
| "forEach_validate digest ch (b # bs) errorLog =
     (if \<not> validate digest b then Inl ReferenceError
      else if height b = 0 then forEach_validate digest ch bs errorLog
      else if \<not> isNextBlock ch b
        then forEach_validate digest ch bs (errorLog @ [ChainBroken (height b)])
      else forEach_validate digest ch bs errorLog)"

definition validateChain :: "digest \<Rightarrow> blockchain \<Rightarrow> (log_entry list) promise" where
  "validateChain digest self =
     (case forEach_validate digest (chain self) (chain self) [] of
        Inr errorLog \<Rightarrow> resolve errorLog None
      | Inl e \<Rightarrow> reject e None)"

subsection \<open>_addBlock\<close>

definition addBlock ::
  "digest \<Rightarrow> int \<Rightarrow> block \<Rightarrow> blockchain \<Rightarrow> block promise \<times> blockchain" where
  \<comment> \<open>\<^verbatim>\<open>_addBlock(block)\<close>; \<open>now\<close> is the clock reading taken inside it. When
      \<^verbatim>\<open>chain[height]\<close> is \<^verbatim>\<open>undefined\<close>, reading its \<^verbatim>\<open>hash\<close> throws.\<close>
  "addBlock digest now block0 self =
     (let chain0 = chain self; height0 = chainHeight self
      in if chain0 \<noteq> [] \<and> \<not> (0 \<le> height0 \<and> height0 < int (length chain0))
         then (reject TypeError None, self)
         else
           let block1 = (if chain0 \<noteq> []
                         then block0\<lparr>previousBlockHash := hash (chain0 ! nat height0)\<rparr>
                         else block0);
               newBlockHeight = height0 + 1;
               block2 = block1\<lparr>height := newBlockHeight\<rparr>;
               block3 = block2\<lparr>time := now_seconds now\<rparr>;
               block4 = block3\<lparr>hash := Some (digest block3)\<rparr>;
               self' = self\<lparr>chainHeight := newBlockHeight, chain := chain0 @ [block4]\<rparr>
           in (case validateChain digest self' of
                 None \<Rightarrow> None
               | Some (Inl e) \<Rightarrow> reject e None
               | Some (Inr validateErrors) \<Rightarrow>
                   resolve block4
                     (if validateErrors \<noteq> []
                      then reject (IntegrityErrors validateErrors) None
                      else None),
               self'))"

subsection \<open>The constructor\<close>

definition initializeChain :: "'star encoder \<Rightarrow> digest \<Rightarrow> int \<Rightarrow> blockchain \<Rightarrow> blockchain" where
  \<comment> \<open>a rejection of \<^verbatim>\<open>_addBlock\<close> is caught and logged\<close>
  "initializeChain enc digest now self =
     (if chainHeight self = - 1
      then snd (addBlock digest now (new_Block enc (genesis_payload :: 'star payload)) self)
      else self)"

definition new_Blockchain :: "'star encoder \<Rightarrow> digest \<Rightarrow> int \<Rightarrow> blockchain" where
  "new_Blockchain enc digest now =
     initializeChain enc digest now \<lparr>chain = [], chainHeight = - 1\<rparr>"

definition getChainHeight :: "blockchain \<Rightarrow> int promise" where
  "getChainHeight self = resolve (chainHeight self) None"

subsection \<open>requestMessageOwnershipVerification and submitStar\<close>

definition requestMessageOwnershipVerification :: "int \<Rightarrow> js_string \<Rightarrow> js_string promise" where
  "requestMessageOwnershipVerification now addr =
     resolve (addr @ (str '':'') @ now_seconds now @ (str '':starRegistry'')) None"

definition elapsed_gt_300 :: "int option \<Rightarrow> int option \<Rightarrow> bool" where
  \<comment> \<open>\<^verbatim>\<open>currentTime - time > 300\<close>; a comparison with \<^verbatim>\<open>NaN\<close> is false\<close>
  "elapsed_gt_300 currentTime time' =
     (case currentTime of
        None \<Rightarrow> False
      | Some c \<Rightarrow> (case time' of None \<Rightarrow> False | Some t \<Rightarrow> c - t > 300))"

definition message_time :: "js_string \<Rightarrow> int option" where
  \<comment> \<open>\<^verbatim>\<open>parseInt(message.split(":")[1])\<close>\<close>
  "message_time msg = parseInt (index_at (split_on (of_char CHR '':'') msg) 1)"

definition submitStar ::
  "'star encoder \<Rightarrow> digest \<Rightarrow> verifier \<Rightarrow> int \<Rightarrow> int \<Rightarrow>
   js_string \<Rightarrow> js_string \<Rightarrow> js_string \<Rightarrow> 'star \<Rightarrow> blockchain \<Rightarrow> block promise \<times> blockchain" where
  \<comment> \<open>\<open>now\<close> is the clock reading of \<^verbatim>\<open>submitStar\<close> itself, \<open>now'\<close> the later one of
      \<^verbatim>\<open>_addBlock\<close>. An exception of the verifier, or a rejection of the awaited
      \<^verbatim>\<open>_addBlock\<close>, lands in the \<^verbatim>\<open>catch\<close>.\<close>
  "submitStar enc digest verify now now' addr msg sig st self =
     (let time' = message_time msg;
          currentTime = parseInt (Some (now_seconds now));
          p1 = (if elapsed_gt_300 currentTime time' then reject ExpiredRequest None else None)
      in case verify msg addr sig of
           None \<Rightarrow> (reject VerifierError p1, self)
         | Some validMessage \<Rightarrow>
             let p2 = (if \<not> validMessage then reject InvalidSignature p1 else p1);
                 block0 = new_Block enc (star_payload addr msg sig st)
             in (case addBlock digest now' block0 self of
                   (None, self') \<Rightarrow> (p2, self')
                 | (Some (Inl e), self') \<Rightarrow> (reject e p2, self')
                 | (Some (Inr createdBlock), self') \<Rightarrow> (resolve createdBlock p2, self')))"

subsection \<open>Queries\<close>

definition getBlockByHash :: "js_string \<Rightarrow> blockchain \<Rightarrow> block promise" where
  \<comment> \<open>\<^verbatim>\<open>if (block) { resolve(block); } reject(...)\<close>: the \<^verbatim>\<open>reject\<close> runs in both cases\<close>
  "getBlockByHash h self =
     (let found = find (\<lambda>b. hash b = Some h) (chain self);
          p = (case found of Some b \<Rightarrow> resolve b None | None \<Rightarrow> None)
      in reject NotFound p)"

definition getBlockByHeight :: "int \<Rightarrow> blockchain \<Rightarrow> (block option) promise" where
  "getBlockByHeight h self =
     (case find (\<lambda>p. height p = h) (chain self) of
        Some b \<Rightarrow> resolve (Some b) None
      | None \<Rightarrow> resolve None None)"







section \<open>Example collaborators\<close>

text \<open>
  Executable stand-ins for the external collaborators, used to run the model on
  concrete ledgers. \<open>demo_digest\<close> serialises the block it is given, so two blocks
  that differ have different digests.
\<close>

definition demo_digest :: digest where
  "demo_digest b =
     toString (height b) @ (str ''/'') @ time b @ (str ''/'') @ body b @ (str ''/'')
       @ (case previousBlockHash b of None \<Rightarrow> (str ''null'') | Some h \<Rightarrow> h) @ (str ''/'')
       @ (case hash b of None \<Rightarrow> (str ''null'') | Some h \<Rightarrow> h)"

definition demo_verify :: verifier where
  "demo_verify msg addr sig =
     (if sig = [] then None else Some (sig = addr @ (str ''+'') @ msg))"

definition demo_enc :: "js_string encoder" where
  "demo_enc d =
     (case address d of
        None \<Rightarrow> (str ''genesis'')
      | Some a \<Rightarrow> a @ (str ''='') @ (case star d of None \<Rightarrow> [] | Some s \<Rightarrow> s))"

definition demo_dec :: "js_string decoder" where
  "demo_dec s =
     (case split_on (of_char CHR ''='') s of
        [a, st] \<Rightarrow>
          Some \<lparr>data = None, address = Some a, message = None, signature = None,
                star = Some st\<rparr>
      | [g] \<Rightarrow> if g = (str ''genesis'') then Some genesis_payload else None
      | _ \<Rightarrow> None)"

section \<open>Notions used to state the properties\<close>

text \<open>
  \<open>can_append\<close> says that \<^verbatim>\<open>_addBlock\<close> can read the current last record: the chain is
  empty, or \<^verbatim>\<open>chain[height]\<close> is a record. \<open>linked_block\<close> is the record the call then
  appends.
\<close>

definition can_append :: "blockchain \<Rightarrow> bool" where
  "can_append self =
     (chain self = [] \<or> (0 \<le> chainHeight self \<and> chainHeight self < int (length (chain self))))"

definition linked_block :: "digest \<Rightarrow> int \<Rightarrow> block \<Rightarrow> blockchain \<Rightarrow> block" where
  "linked_block digest now block0 self =
     (let content = block0
            \<lparr>height := chainHeight self + 1, time := now_seconds now,
             previousBlockHash :=
               (if chain self = [] then previousBlockHash block0
                else hash (chain self ! nat (chainHeight self)))\<rparr>
      in content\<lparr>hash := Some (digest content)\<rparr>)"

text \<open>
  The ledgers of the append path: the ledger the constructor leaves, and every ledger
  that a call of \<^verbatim>\<open>_addBlock\<close> on a new block or a call of \<^verbatim>\<open>submitStar\<close> leaves
  from one of them, with any arguments, clock readings and verifier.
\<close>

inductive appendPath :: "'star encoder \<Rightarrow> digest \<Rightarrow> blockchain \<Rightarrow> bool"
  for enc :: "'star encoder" and digest :: digest where
  constructed: "appendPath enc digest (new_Blockchain enc digest now)"
| appended:
    "appendPath enc digest self \<Longrightarrow>
     appendPath enc digest (snd (addBlock digest now (new_Block enc d) self))"
| submitted:
    "appendPath enc digest self \<Longrightarrow>
     appendPath enc digest (snd (submitStar enc digest verify now now' addr msg sig st self))"

text \<open>The invariant of the append path.\<close>

definition well_linked :: "digest \<Rightarrow> blockchain \<Rightarrow> bool" where
  "well_linked digest self =
     (chain self \<noteq> [] \<and> chainHeight self = int (length (chain self)) - 1
      \<and> (\<forall>i < length (chain self). height (chain self ! i) = int i)
      \<and> previousBlockHash (chain self ! 0) = None
      \<and> (\<forall>i. Suc i < length (chain self) \<longrightarrow>
             previousBlockHash (chain self ! Suc i) = hash (chain self ! i))
      \<and> (\<forall>b \<in> set (chain self). validate digest b))"


text \<open>
  Example ledgers, built with the example collaborators: the ledger of the constructor
  at clock reading 1000000, that ledger after one and after two submissions, the
  second ledger with the payload of its last record changed and the hash left as it was,
  and a ledger whose second record carries the digest of its own content and a
  predecessor hash that no record has.
\<close>

definition demo_ledger0 :: blockchain where
  "demo_ledger0 = new_Blockchain demo_enc demo_digest 1000000"

definition demo_ledger1 :: blockchain where
  "demo_ledger1 =
     snd (submitStar demo_enc demo_digest demo_verify 2000000 2001000
            (str ''a1'') (str ''a1:1990:starRegistry'') (str ''a1+a1:1990:starRegistry'') (str ''sirius'') demo_ledger0)"

definition demo_ledger2 :: blockchain where
  "demo_ledger2 =
     snd (submitStar demo_enc demo_digest demo_verify 3000000 3001000
            (str ''a2'') (str ''a2:2990:starRegistry'') (str ''a2+a2:2990:starRegistry'') (str ''vega'') demo_ledger1)"

definition demo_tampered :: blockchain where
  "demo_tampered =
     demo_ledger1\<lparr>chain := (chain demo_ledger1)[1 := (chain demo_ledger1 ! 1)\<lparr>body := (str ''a1=vega'')\<rparr>]\<rparr>"

definition demo_unlinked_block :: block where
  "demo_unlinked_block =
     \<lparr>hash = Some (demo_digest \<lparr>hash = None, height = 1, body = (str ''a1=sirius''), time = (str ''2001''),
                                 previousBlockHash = Some (str ''bogus'')\<rparr>),
      height = 1, body = (str ''a1=sirius''), time = (str ''2001''), previousBlockHash = Some (str ''bogus'')\<rparr>"

definition demo_unlinked :: blockchain where
  "demo_unlinked = \<lparr>chain = chain demo_ledger0 @ [demo_unlinked_block], chainHeight = 1\<rparr>"

section \<open>Properties\<close>

subsection \<open>Promises\<close>

lemma reject_settled [simp]: "reject e (Some r) = Some r"
  by (simp add: reject_def)

lemma resolve_settled [simp]: "resolve v (Some r) = Some r"
  by (simp add: resolve_def)

lemma reject_pending [simp]: "reject e None = Some (Inl e)"
  by (simp add: reject_def)

lemma resolve_pending [simp]: "resolve v None = Some (Inr v)"
  by (simp add: resolve_def)

subsection \<open>Searching a list\<close>

lemma find_distinct_nth:
  "distinct (map f xs) \<Longrightarrow> i < length xs \<Longrightarrow> find (\<lambda>p. f p = f (xs ! i)) xs = Some (xs ! i)"
proof (induction xs arbitrary: i)
  case Nil
  then show ?case by simp
next
  case (Cons x xs)
  show ?case
  proof (cases i)
    case 0
    then show ?thesis by simp
  next
    case (Suc j)
    with Cons.prems have "j < length xs" and "f (xs ! j) \<in> f ` set xs" and "f x \<notin> f ` set xs"
      by auto
    then have "f x \<noteq> f (xs ! j)" by metis
    with Cons Suc show ?thesis by simp
  qed
qed

lemma find_first:
  "\<forall>p \<in> set pre. \<not> P p \<Longrightarrow> P b \<Longrightarrow> find P (pre @ b # post) = Some b"
  by (induction pre) auto

lemma find_none: "\<forall>p \<in> set xs. \<not> P p \<Longrightarrow> find P xs = None"
  by (induction xs) auto

subsection \<open>The loop of \<^verbatim>\<open>validateChain\<close>\<close>

lemma forEach_validate_invalid:
  "\<exists>b \<in> set bs. \<not> validate digest b \<Longrightarrow> forEach_validate digest ch bs errorLog = Inl ReferenceError"
  by (induction bs arbitrary: errorLog) auto

lemma forEach_validate_clean:
  "\<forall>b \<in> set bs. validate digest b \<and> (height b = 0 \<or> isNextBlock ch b) \<Longrightarrow>
     forEach_validate digest ch bs errorLog = Inr errorLog"
  by (induction bs arbitrary: errorLog) auto

lemma forEach_validate_error:
  "forEach_validate digest ch bs errorLog = Inl e \<Longrightarrow> e = ReferenceError"
  by (induction bs arbitrary: errorLog) (auto split: if_splits)

subsection \<open>What \<^verbatim>\<open>_addBlock\<close> and \<^verbatim>\<open>submitStar\<close> do to the ledger\<close>

lemma addBlock_state:
  assumes "can_append self"
  shows "snd (addBlock digest now block0 self) =
           \<lparr>chain = chain self @ [linked_block digest now block0 self],
            chainHeight = chainHeight self + 1\<rparr>"
  using assms
  by (cases self; cases block0) (auto simp add: addBlock_def can_append_def linked_block_def Let_def)

lemma addBlock_outcome:
  assumes "can_append self"
  shows "fst (addBlock digest now block0 self) =
           (case validateChain digest (snd (addBlock digest now block0 self)) of
              None \<Rightarrow> None
            | Some (Inl e) \<Rightarrow> Some (Inl e)
            | Some (Inr errs) \<Rightarrow>
                if errs = [] then Some (Inr (linked_block digest now block0 self))
                else Some (Inl (IntegrityErrors errs)))"
  using assms
  by (cases self; cases block0)
    (auto simp add: addBlock_def can_append_def linked_block_def Let_def
      split: option.splits sum.splits)

lemma addBlock_blocked:
  assumes "\<not> can_append self"
  shows "addBlock digest now block0 self = (Some (Inl TypeError), self)"
  using assms by (auto simp add: addBlock_def can_append_def Let_def)

lemma addBlock_error:
  assumes "fst (addBlock digest now block0 self) = Some (Inl e)"
  shows "e = TypeError \<or> e = ReferenceError \<or> (\<exists>errs. e = IntegrityErrors errs)"
proof (cases "can_append self")
  case False
  with assms show ?thesis by (simp add: addBlock_blocked)
next
  case True
  show ?thesis
  proof (cases "forEach_validate digest (chain (snd (addBlock digest now block0 self)))
                  (chain (snd (addBlock digest now block0 self))) []")
    case (Inl e')
    then have "e' = ReferenceError" by (rule forEach_validate_error)
    with Inl assms True show ?thesis
      by (simp add: addBlock_outcome validateChain_def)
  next
    case (Inr errs)
    with assms True show ?thesis
      by (auto simp add: addBlock_outcome validateChain_def split: if_splits)
  qed
qed

lemma linked_block_fields [simp]:
  "height (linked_block digest now block0 self) = chainHeight self + 1"
  "time (linked_block digest now block0 self) = now_seconds now"
  "body (linked_block digest now block0 self) = body block0"
  "previousBlockHash (linked_block digest now block0 self) =
     (if chain self = [] then previousBlockHash block0
      else hash (chain self ! nat (chainHeight self)))"
  by (simp_all add: linked_block_def Let_def)

lemma linked_block_valid:
  "hash block0 = None \<Longrightarrow> validate digest (linked_block digest now block0 self)"
  by (cases block0) (simp add: linked_block_def validate_def Let_def)

lemma new_Block_fields [simp]:
  "hash (new_Block enc d) = None"
  "previousBlockHash (new_Block enc d) = None"
  "body (new_Block enc d) = enc d"
  by (simp_all add: new_Block_def)

lemma submitStar_state:
  "snd (submitStar enc digest verify now now' addr msg sig st self) = self
   \<or> snd (submitStar enc digest verify now now' addr msg sig st self) =
       snd (addBlock digest now' (new_Block enc (star_payload addr msg sig st)) self)"
  by (auto simp add: submitStar_def Let_def split: sum.splits option.splits prod.splits)

lemma submitStar_appends:
  assumes "verify msg addr sig = Some v" and "can_append self"
  shows "snd (submitStar enc digest verify now now' addr msg sig st self) =
           \<lparr>chain = chain self
              @ [linked_block digest now' (new_Block enc (star_payload addr msg sig st)) self],
            chainHeight = chainHeight self + 1\<rparr>"
proof -
  have "snd (submitStar enc digest verify now now' addr msg sig st self) =
          snd (addBlock digest now' (new_Block enc (star_payload addr msg sig st)) self)"
    using assms(1)
    by (simp add: submitStar_def Let_def split: sum.splits option.splits prod.splits)
  with assms(2) show ?thesis by (simp add: addBlock_state)
qed

subsection \<open>The invariant of the append path\<close>

lemma well_linked_can_append: "well_linked digest self \<Longrightarrow> can_append self"
  by (auto simp add: well_linked_def can_append_def)

lemma well_linked_genesis:
  "well_linked digest (snd (addBlock digest now (new_Block enc d) \<lparr>chain = [], chainHeight = - 1\<rparr>))"
proof -
  have "can_append \<lparr>chain = [], chainHeight = - 1\<rparr>"
    by (simp add: can_append_def)
  then show ?thesis
    by (simp add: addBlock_state well_linked_def linked_block_valid)
qed

lemma well_linked_addBlock:
  assumes "well_linked digest self"
  shows "well_linked digest (snd (addBlock digest now (new_Block enc d) self))"
proof -
  let ?b = "linked_block digest now (new_Block enc d) self"
  let ?n = "length (chain self)"
  from assms have ne: "chain self \<noteq> []" and h: "chainHeight self = int ?n - 1"
    and hs: "\<forall>i < ?n. height (chain self ! i) = int i"
    and g: "previousBlockHash (chain self ! 0) = None"
    and ls: "\<forall>i. Suc i < ?n \<longrightarrow> previousBlockHash (chain self ! Suc i) = hash (chain self ! i)"
    and vs: "\<forall>b \<in> set (chain self). validate digest b"
    by (simp_all add: well_linked_def)
  from ne have pos: "0 < ?n" by simp
  have st: "snd (addBlock digest now (new_Block enc d) self) =
              \<lparr>chain = chain self @ [?b], chainHeight = chainHeight self + 1\<rparr>"
    using assms by (simp add: addBlock_state well_linked_can_append)
  have hb: "height ?b = int ?n" using h by simp
  have "nat (chainHeight self) = ?n - 1" using h pos by simp
  then have pb: "previousBlockHash ?b = hash (chain self ! (?n - 1))" using ne by simp
  have vb: "validate digest ?b" by (simp add: linked_block_valid)
  have 1: "\<forall>i < length (chain self @ [?b]). height ((chain self @ [?b]) ! i) = int i"
    using hs hb by (auto simp add: nth_append less_Suc_eq)
  have 2: "previousBlockHash ((chain self @ [?b]) ! 0) = None"
    using g pos by (simp add: nth_append)
  have 3: "\<forall>i. Suc i < length (chain self @ [?b]) \<longrightarrow>
             previousBlockHash ((chain self @ [?b]) ! Suc i) = hash ((chain self @ [?b]) ! i)"
  proof (intro allI impI)
    fix i assume "Suc i < length (chain self @ [?b])"
    then have "Suc i < ?n \<or> Suc i = ?n" by auto
    then show "previousBlockHash ((chain self @ [?b]) ! Suc i) = hash ((chain self @ [?b]) ! i)"
    proof
      assume "Suc i < ?n"
      with ls show ?thesis by (simp add: nth_append)
    next
      assume e: "Suc i = ?n"
      then have "i = ?n - 1" by simp
      with e pb show ?thesis by (simp add: nth_append)
    qed
  qed
  have 4: "\<forall>b \<in> set (chain self @ [?b]). validate digest b"
    using vs vb by auto
  show ?thesis
    unfolding st well_linked_def using 1 2 3 4 h by simp
qed

lemma appendPath_well_linked:
  "appendPath enc digest self \<Longrightarrow> well_linked digest self"
proof (induction rule: appendPath.induct)
  case (constructed now)
  show ?case
    by (simp add: new_Blockchain_def initializeChain_def well_linked_genesis)
next
  case (appended self now d)
  then show ?case by (simp add: well_linked_addBlock)
next
  case (submitted self verify now now' addr msg sig st)
  then show ?case
    using submitStar_state [of enc digest verify now now' addr msg sig st self]
    by (auto simp add: well_linked_addBlock)
qed

lemma well_linked_distinct:
  assumes "well_linked digest self" and "inj digest"
  shows "distinct (map hash (chain self))"
proof -
  from assms(1) have hs: "\<forall>i < length (chain self). height (chain self ! i) = int i"
    and vs: "\<forall>b \<in> set (chain self). validate digest b"
    by (simp_all add: well_linked_def)
  have "hash (chain self ! i) \<noteq> hash (chain self ! j)"
    if "i < length (chain self)" and "j < length (chain self)" and "i \<noteq> j" for i j
  proof
    assume eq: "hash (chain self ! i) = hash (chain self ! j)"
    from vs that have "hash (chain self ! i) = Some (digest ((chain self ! i)\<lparr>hash := None\<rparr>))"
      and "hash (chain self ! j) = Some (digest ((chain self ! j)\<lparr>hash := None\<rparr>))"
      by (simp_all add: validate_def)
    with eq assms(2) have "(chain self ! i)\<lparr>hash := None\<rparr> = (chain self ! j)\<lparr>hash := None\<rparr>"
      by (simp add: inj_eq)
    then have "height ((chain self ! i)\<lparr>hash := None\<rparr>) = height ((chain self ! j)\<lparr>hash := None\<rparr>)"
      by simp
    with hs that show False by simp
  qed
  then show ?thesis by (simp add: distinct_conv_nth)
qed

lemma appendPath_distinct:
  "appendPath enc digest self \<Longrightarrow> inj digest \<Longrightarrow> distinct (map hash (chain self))"
  by (rule well_linked_distinct [OF appendPath_well_linked])

subsection \<open>The callbacks of \<^verbatim>\<open>getStarsByWalletAddress\<close>\<close>





subsection \<open>The example ledgers, evaluated\<close>

lemmas js_eval =
  str_def toString_def nat_digits.simps slice_def now_seconds_def parseInt_def index_at_def
  is_white_def digit_of_def radix_digit_def digit_val_def message_time_def
  elapsed_gt_300_def Let_def

lemmas chain_eval =
  new_Blockchain_def initializeChain_def addBlock_def validateChain_def validate_def
  isNextBlock_def new_Block_def genesis_payload_def star_payload_def submitStar_def

lemmas demo_eval = demo_digest_def demo_verify_def demo_enc_def demo_dec_def

lemma message_time_no_break_space:
  "message_time (str ''a1:'' @ [0xA0] @ str ''1000:starRegistry'') = Some 1000"
  by (simp add: js_eval)

lemma demo_ledger0_eq:
  "demo_ledger0 =
     \<lparr>chain = [\<lparr>hash = Some (str ''0/1000/genesis/null/null''), height = 0, body = (str ''genesis''),
                time = (str ''1000''), previousBlockHash = None\<rparr>],
      chainHeight = 0\<rparr>"
  by (simp add: demo_ledger0_def js_eval chain_eval demo_eval)

lemma demo_ledger1_eq:
  "demo_ledger1 =
     \<lparr>chain = [\<lparr>hash = Some (str ''0/1000/genesis/null/null''), height = 0, body = (str ''genesis''),
                time = (str ''1000''), previousBlockHash = None\<rparr>,
               \<lparr>hash = Some (str ''1/2001/a1=sirius/0/1000/genesis/null/null/null''), height = 1,
                body = (str ''a1=sirius''), time = (str ''2001''),
                previousBlockHash = Some (str ''0/1000/genesis/null/null'')\<rparr>],
      chainHeight = 1\<rparr>"
  by (simp add: demo_ledger1_def demo_ledger0_eq js_eval chain_eval demo_eval)

lemma demo_ledger2_eq:
  "demo_ledger2 =
     \<lparr>chain = [\<lparr>hash = Some (str ''0/1000/genesis/null/null''), height = 0, body = (str ''genesis''),
                time = (str ''1000''), previousBlockHash = None\<rparr>,
               \<lparr>hash = Some (str ''1/2001/a1=sirius/0/1000/genesis/null/null/null''), height = 1,
                body = (str ''a1=sirius''), time = (str ''2001''),
                previousBlockHash = Some (str ''0/1000/genesis/null/null'')\<rparr>,
               \<lparr>hash = Some (str ''2/3001/a2=vega/1/2001/a1=sirius/0/1000/genesis/null/null/null/null''),
                height = 2, body = (str ''a2=vega''), time = (str ''3001''),
                previousBlockHash = Some (str ''1/2001/a1=sirius/0/1000/genesis/null/null/null'')\<rparr>],
      chainHeight = 2\<rparr>"
  by (simp add: demo_ledger2_def demo_ledger1_eq js_eval chain_eval demo_eval)


lemma demo_unlinked_eq:
  "demo_unlinked =
     \<lparr>chain = [\<lparr>hash = Some (str ''0/1000/genesis/null/null''), height = 0, body = (str ''genesis''),
                time = (str ''1000''), previousBlockHash = None\<rparr>,
               \<lparr>hash = Some (str ''1/2001/a1=sirius/bogus/null''), height = 1,
                body = (str ''a1=sirius''), time = (str ''2001''), previousBlockHash = Some (str ''bogus'')\<rparr>],
      chainHeight = 1\<rparr>"
  by (simp add: demo_unlinked_def demo_unlinked_block_def demo_ledger0_eq demo_digest_def js_eval)

lemma can_append_demo_ledger0: "can_append demo_ledger0"
  by (simp add: str_def can_append_def demo_ledger0_eq)

lemma can_append_demo_unlinked: "can_append demo_unlinked"
  by (simp add: str_def can_append_def demo_unlinked_eq)

lemma addBlock_demo_ledger0:
  "addBlock demo_digest 2001000 (new_Block demo_enc (star_payload (str ''a1'') (str ''m'') (str ''s'') (str ''sirius'')))
     demo_ledger0 =
   (Some (Inr (chain demo_ledger1 ! 1)), demo_ledger1)"
  by (simp add: demo_ledger0_eq demo_ledger1_eq js_eval chain_eval demo_eval)

lemma addBlock_demo_unlinked:
  "addBlock demo_digest 3000000 (new_Block demo_enc (star_payload (str ''a2'') (str ''m'') (str ''s'') (str ''vega'')))
     demo_unlinked =
   (Some (Inl (IntegrityErrors [ChainBroken 1])),
    \<lparr>chain = chain demo_unlinked
        @ [\<lparr>hash = Some (str ''2/3000/a2=vega/1/2001/a1=sirius/bogus/null/null''), height = 2,
            body = (str ''a2=vega''), time = (str ''3000''),
            previousBlockHash = Some (str ''1/2001/a1=sirius/bogus/null'')\<rparr>],
      chainHeight = 2\<rparr>)"
  by (simp add: demo_unlinked_eq js_eval chain_eval demo_eval)

lemma appendPath_demo_ledger0: "appendPath demo_enc demo_digest demo_ledger0"
  unfolding demo_ledger0_def by (rule appendPath.constructed)

lemma appendPath_demo_ledger1: "appendPath demo_enc demo_digest demo_ledger1"
  unfolding demo_ledger1_def by (rule appendPath.submitted [OF appendPath_demo_ledger0])

subsection \<open>A failed check does not stop the append (C1)\<close>

text \<open>
  Claim C1, as the code behaves. On the ledger of the constructor, a submission whose
  message is 1000 seconds old, and a submission with a recent message and a signature
  the verifier refuses, are rejected with \<open>ExpiredRequest\<close> and \<open>InvalidSignature\<close>; each
  leaves the ledger one record longer and the height one higher, since \<^verbatim>\<open>reject\<close> does
  not leave the function.
\<close>

theorem submitStar_failed_check_appends:
  "fst (submitStar demo_enc demo_digest demo_verify 2000000 2001000
          (str ''a1'') (str ''a1:1000:starRegistry'') (str ''a1+a1:1000:starRegistry'') (str ''sirius'') demo_ledger0)
     = Some (Inl ExpiredRequest)
   \<and> length (chain (snd (submitStar demo_enc demo_digest demo_verify 2000000 2001000
          (str ''a1'') (str ''a1:1000:starRegistry'') (str ''a1+a1:1000:starRegistry'') (str ''sirius'') demo_ledger0)))
     = length (chain demo_ledger0) + 1
   \<and> chainHeight (snd (submitStar demo_enc demo_digest demo_verify 2000000 2001000
          (str ''a1'') (str ''a1:1000:starRegistry'') (str ''a1+a1:1000:starRegistry'') (str ''sirius'') demo_ledger0))
     = chainHeight demo_ledger0 + 1
   \<and> fst (submitStar demo_enc demo_digest demo_verify 2000000 2001000
          (str ''a1'') (str ''a1:1990:starRegistry'') (str ''forged'') (str ''sirius'') demo_ledger0)
     = Some (Inl InvalidSignature)
   \<and> length (chain (snd (submitStar demo_enc demo_digest demo_verify 2000000 2001000
          (str ''a1'') (str ''a1:1990:starRegistry'') (str ''forged'') (str ''sirius'') demo_ledger0)))
     = length (chain demo_ledger0) + 1
   \<and> chainHeight (snd (submitStar demo_enc demo_digest demo_verify 2000000 2001000
          (str ''a1'') (str ''a1:1990:starRegistry'') (str ''forged'') (str ''sirius'') demo_ledger0))
     = chainHeight demo_ledger0 + 1"
  by (simp add: demo_ledger0_eq js_eval chain_eval demo_eval)

subsection \<open>Validation of a tampered ledger (C2)\<close>

text \<open>
  Claim C2, as the code behaves. When a record of the ledger does not carry the digest
  of its content (its payload was changed and its hash was not), \<^verbatim>\<open>validateChain\<close> does
  not resolve with a list of errors: building the message for that record reads the
  undeclared variable \<^verbatim>\<open>height\<close>, and the promise is rejected with the ReferenceError.
\<close>

theorem validateChain_tampered_rejects:
  assumes "b \<in> set (chain self)" and "hash b \<noteq> Some (digest (b\<lparr>hash := None\<rparr>))"
  shows "validateChain digest self = Some (Inl ReferenceError)"
proof -
  from assms have "\<exists>b \<in> set (chain self). \<not> validate digest b"
    by (auto simp add: validate_def)
  then have "forEach_validate digest (chain self) (chain self) [] = Inl ReferenceError"
    by (rule forEach_validate_invalid)
  then show ?thesis by (simp add: validateChain_def)
qed

theorem validateChain_tampered_rejects_witness:
  "chain demo_tampered ! 1 \<in> set (chain demo_tampered)
   \<and> body (chain demo_tampered ! 1) = (str ''a1=vega'')
   \<and> hash (chain demo_tampered ! 1) = hash (chain demo_ledger1 ! 1)
   \<and> hash (chain demo_tampered ! 1)
       \<noteq> Some (demo_digest ((chain demo_tampered ! 1)\<lparr>hash := None\<rparr>))
   \<and> validateChain demo_digest demo_tampered = Some (Inl ReferenceError)"
proof -
  have m: "chain demo_tampered ! 1 \<in> set (chain demo_tampered)"
    by (simp add: str_def demo_tampered_def demo_ledger1_eq)
  have h: "hash (chain demo_tampered ! 1)
             \<noteq> Some (demo_digest ((chain demo_tampered ! 1)\<lparr>hash := None\<rparr>))"
    by (simp add: demo_tampered_def demo_ledger1_eq demo_digest_def js_eval)
  have "body (chain demo_tampered ! 1) = (str ''a1=vega'')"
    and "hash (chain demo_tampered ! 1) = hash (chain demo_ledger1 ! 1)"
    by (simp_all add: str_def demo_tampered_def demo_ledger1_eq)
  with validateChain_tampered_rejects [of "chain demo_tampered ! 1" demo_tampered demo_digest] m h
  show ?thesis by simp
qed

subsection \<open>What \<^verbatim>\<open>_addBlock\<close> returns (C3)\<close>

text \<open>
  Claim C3 fails on the ledger whose second record names a predecessor hash that no
  record has: after the append \<^verbatim>\<open>validateChain\<close> resolves with one error, for height 1,
  and \<^verbatim>\<open>_addBlock\<close> rejects with that list instead of returning the record.
\<close>

theorem addBlock_rejects_counterexample:
  "validateChain demo_digest
     (snd (addBlock demo_digest 3000000
             (new_Block demo_enc (star_payload (str ''a2'') (str ''m'') (str ''s'') (str ''vega''))) demo_unlinked))
     = Some (Inr [ChainBroken 1])
   \<and> fst (addBlock demo_digest 3000000
             (new_Block demo_enc (star_payload (str ''a2'') (str ''m'') (str ''s'') (str ''vega''))) demo_unlinked)
     = Some (Inl (IntegrityErrors [ChainBroken 1]))"
  by (simp add: addBlock_demo_unlinked) (simp add: demo_unlinked_eq js_eval chain_eval demo_eval)

text \<open>
  Claim C3, amended. When \<^verbatim>\<open>_addBlock\<close> can read the current last record it appends
  the new record, and when the validation after the append resolves with a list of
  errors the call resolves with the appended record if the list is empty and is
  rejected with the list if it is not.
\<close>

theorem addBlock_outcome_by_validation:
  assumes "can_append self"
    and "validateChain digest (snd (addBlock digest now block0 self)) = Some (Inr errs)"
  shows "\<exists>b. chain (snd (addBlock digest now block0 self)) = chain self @ [b]
             \<and> fst (addBlock digest now block0 self) =
                 (if errs = [] then Some (Inr b) else Some (Inl (IntegrityErrors errs)))"
proof -
  let ?b = "linked_block digest now block0 self"
  from assms(1) have "chain (snd (addBlock digest now block0 self)) = chain self @ [?b]"
    by (simp add: addBlock_state)
  moreover from assms have "fst (addBlock digest now block0 self) =
      (if errs = [] then Some (Inr ?b) else Some (Inl (IntegrityErrors errs)))"
    by (simp add: addBlock_outcome)
  ultimately show ?thesis by blast
qed

theorem addBlock_outcome_by_validation_witness:
  "can_append demo_unlinked
   \<and> validateChain demo_digest
        (snd (addBlock demo_digest 3000000
                (new_Block demo_enc (star_payload (str ''a2'') (str ''m'') (str ''s'') (str ''vega''))) demo_unlinked))
        = Some (Inr [ChainBroken 1])
   \<and> (\<exists>b. chain (snd (addBlock demo_digest 3000000
                (new_Block demo_enc (star_payload (str ''a2'') (str ''m'') (str ''s'') (str ''vega''))) demo_unlinked))
              = chain demo_unlinked @ [b]
            \<and> fst (addBlock demo_digest 3000000
                (new_Block demo_enc (star_payload (str ''a2'') (str ''m'') (str ''s'') (str ''vega''))) demo_unlinked)
              = Some (Inl (IntegrityErrors [ChainBroken 1])))
   \<and> can_append demo_ledger0
   \<and> validateChain demo_digest
        (snd (addBlock demo_digest 2001000
                (new_Block demo_enc (star_payload (str ''a1'') (str ''m'') (str ''s'') (str ''sirius''))) demo_ledger0))
        = Some (Inr [])
   \<and> (\<exists>b. chain (snd (addBlock demo_digest 2001000
                (new_Block demo_enc (star_payload (str ''a1'') (str ''m'') (str ''s'') (str ''sirius''))) demo_ledger0))
              = chain demo_ledger0 @ [b]
            \<and> fst (addBlock demo_digest 2001000
                (new_Block demo_enc (star_payload (str ''a1'') (str ''m'') (str ''s'') (str ''sirius''))) demo_ledger0)
              = Some (Inr b))"
proof -
  have v: "validateChain demo_digest
        (snd (addBlock demo_digest 3000000
                (new_Block demo_enc (star_payload (str ''a2'') (str ''m'') (str ''s'') (str ''vega''))) demo_unlinked))
        = Some (Inr [ChainBroken 1])"
    by (simp add: addBlock_demo_unlinked) (simp add: demo_unlinked_eq js_eval chain_eval demo_eval)
  have w: "validateChain demo_digest
        (snd (addBlock demo_digest 2001000
                (new_Block demo_enc (star_payload (str ''a1'') (str ''m'') (str ''s'') (str ''sirius''))) demo_ledger0))
        = Some (Inr [])"
    by (simp add: addBlock_demo_ledger0) (simp add: demo_ledger1_eq js_eval chain_eval demo_eval)
  from addBlock_outcome_by_validation [OF can_append_demo_unlinked v]
    addBlock_outcome_by_validation [OF can_append_demo_ledger0 w]
    can_append_demo_unlinked can_append_demo_ledger0 v w
  show ?thesis by simp
qed

subsection \<open>Validation of an appended ledger (C4)\<close>

text \<open>
  Claim C4. On every ledger of the append path \<^verbatim>\<open>validateChain\<close> resolves with the empty
  list, the digest being free of collisions on the ledger: no two records carry the same
  hash.
\<close>

theorem appendPath_validateChain:
  assumes "appendPath enc digest self" and "distinct (map hash (chain self))"
  shows "validateChain digest self = Some (Inr [])"
proof -
  from assms(1) have wl: "well_linked digest self" by (rule appendPath_well_linked)
  then have hs: "\<forall>i < length (chain self). height (chain self ! i) = int i"
    and ls: "\<forall>i. Suc i < length (chain self) \<longrightarrow>
               previousBlockHash (chain self ! Suc i) = hash (chain self ! i)"
    and vs: "\<forall>b \<in> set (chain self). validate digest b"
    by (simp_all add: well_linked_def)
  have "validate digest b \<and> (height b = 0 \<or> isNextBlock (chain self) b)"
    if "b \<in> set (chain self)" for b
  proof -
    from that obtain i where i: "i < length (chain self)" and b: "b = chain self ! i"
      by (auto simp add: in_set_conv_nth)
    have "height b = 0 \<or> isNextBlock (chain self) b"
    proof (cases i)
      case 0
      with hs i b show ?thesis by simp
    next
      case (Suc j)
      with i have j: "j < length (chain self)" by simp
      from ls Suc i b have "previousBlockHash b = hash (chain self ! j)" by simp
      moreover from assms(2) j
      have "find (\<lambda>p. hash p = hash (chain self ! j)) (chain self) = Some (chain self ! j)"
        by (rule find_distinct_nth)
      moreover from hs j have "height (chain self ! j) = int j" by simp
      moreover from hs i b Suc have "height b = int (Suc j)" by simp
      ultimately show ?thesis by (simp add: isNextBlock_def)
    qed
    with vs that show ?thesis by simp
  qed
  then have "forEach_validate digest (chain self) (chain self) [] = Inr []"
    by (intro forEach_validate_clean) blast
  then show ?thesis by (simp add: validateChain_def)
qed

theorem appendPath_validateChain_witness:
  "appendPath demo_enc demo_digest demo_ledger1
   \<and> distinct (map hash (chain demo_ledger1))
   \<and> validateChain demo_digest demo_ledger1 = Some (Inr [])"
proof -
  have d: "distinct (map hash (chain demo_ledger1))" by (simp add: str_def demo_ledger1_eq)
  from appendPath_validateChain [OF appendPath_demo_ledger1 d] appendPath_demo_ledger1 d
  show ?thesis by simp
qed

subsection \<open>Linkage of the ledger (C5)\<close>

text \<open>
  Claim C5. Every ledger of the append path is linked: it is not empty, its first record
  has height 0 and no predecessor hash, and every later record has the height of the
  record before it plus one and holds that record's hash as its predecessor hash.
\<close>

theorem appendPath_linkage:
  assumes "appendPath enc digest self"
  shows "chain self \<noteq> [] \<and> height (chain self ! 0) = 0
         \<and> previousBlockHash (chain self ! 0) = None
         \<and> (\<forall>i. 0 < i \<and> i < length (chain self) \<longrightarrow>
                height (chain self ! i) = height (chain self ! (i - 1)) + 1
                \<and> previousBlockHash (chain self ! i) = hash (chain self ! (i - 1)))"
proof -
  from assms have wl: "well_linked digest self" by (rule appendPath_well_linked)
  then have ne: "chain self \<noteq> []" and g: "previousBlockHash (chain self ! 0) = None"
    and hs: "\<forall>i < length (chain self). height (chain self ! i) = int i"
    and ls: "\<forall>i. Suc i < length (chain self) \<longrightarrow>
               previousBlockHash (chain self ! Suc i) = hash (chain self ! i)"
    by (simp_all add: well_linked_def)
  from ne hs have h0: "height (chain self ! 0) = 0" by simp
  have step: "height (chain self ! i) = height (chain self ! (i - 1)) + 1
              \<and> previousBlockHash (chain self ! i) = hash (chain self ! (i - 1))"
    if "0 < i" and "i < length (chain self)" for i
  proof -
    from that obtain j where j: "i = Suc j" by (cases i) auto
    with that hs have "height (chain self ! i) = int (Suc j)" and "height (chain self ! j) = int j"
      by auto
    moreover from ls j that have "previousBlockHash (chain self ! i) = hash (chain self ! j)"
      by auto
    ultimately show ?thesis using j by simp
  qed
  from ne h0 g step show ?thesis by blast
qed

theorem appendPath_linkage_witness:
  "appendPath demo_enc demo_digest demo_ledger1
   \<and> length (chain demo_ledger1) = 2
   \<and> height (chain demo_ledger1 ! 0) = 0
   \<and> previousBlockHash (chain demo_ledger1 ! 0) = None
   \<and> height (chain demo_ledger1 ! 1) = height (chain demo_ledger1 ! 0) + 1
   \<and> previousBlockHash (chain demo_ledger1 ! 1) = hash (chain demo_ledger1 ! 0)"
proof -
  have len: "length (chain demo_ledger1) = 2" by (simp add: str_def demo_ledger1_eq)
  from appendPath_linkage [OF appendPath_demo_ledger1] len
  show ?thesis using appendPath_demo_ledger1 by auto
qed

subsection \<open>The hash of an appended record (C6)\<close>

text \<open>
  Claim C6. The record that \<^verbatim>\<open>_addBlock\<close> creates from a new block has the next height,
  the clock reading in seconds as timestamp and the hash of the last record as
  predecessor hash (none on the empty ledger); its stored hash is the digest of the
  record with these fields and the payload set and the hash field empty.
\<close>

theorem addBlock_hash_of_content:
  assumes "can_append self"
  shows "\<exists>b. chain (snd (addBlock digest now (new_Block enc d) self)) = chain self @ [b]
             \<and> height b = chainHeight self + 1
             \<and> time b = now_seconds now
             \<and> body b = enc d
             \<and> previousBlockHash b =
                 (if chain self = [] then None else hash (chain self ! nat (chainHeight self)))
             \<and> hash b = Some (digest (b\<lparr>hash := None\<rparr>))"
proof -
  let ?b = "linked_block digest now (new_Block enc d) self"
  from assms have "chain (snd (addBlock digest now (new_Block enc d) self)) = chain self @ [?b]"
    by (simp add: addBlock_state)
  moreover have "validate digest ?b" by (simp add: linked_block_valid)
  then have "hash ?b = Some (digest (?b\<lparr>hash := None\<rparr>))" by (simp add: validate_def)
  ultimately show ?thesis by (intro exI [of _ ?b]) simp
qed

theorem addBlock_hash_of_content_witness:
  "can_append demo_ledger0
   \<and> (\<exists>b. chain (snd (addBlock demo_digest 2001000
                (new_Block demo_enc (star_payload (str ''a1'') (str ''m'') (str ''s'') (str ''sirius''))) demo_ledger0))
              = chain demo_ledger0 @ [b]
            \<and> height b = 1 \<and> time b = (str ''2001'') \<and> body b = (str ''a1=sirius'')
            \<and> previousBlockHash b = hash (chain demo_ledger0 ! 0)
            \<and> hash b = Some (demo_digest (b\<lparr>hash := None\<rparr>)))"
proof -
  have 1: "chainHeight demo_ledger0 = 0" and 2: "chain demo_ledger0 \<noteq> []"
    by (simp_all add: str_def demo_ledger0_eq)
  have 3: "now_seconds 2001000 = (str ''2001'')" by (simp add: js_eval)
  have 4: "demo_enc (star_payload (str ''a1'') (str ''m'') (str ''s'') (str ''sirius'')) = (str ''a1=sirius'')"
    by (simp add: str_def demo_enc_def star_payload_def)
  from addBlock_hash_of_content [OF can_append_demo_ledger0, of demo_digest 2001000 demo_enc
      "star_payload (str ''a1'') (str ''m'') (str ''s'') (str ''sirius'')"]
  show ?thesis using can_append_demo_ledger0 by (simp add: 1 2 3 4)
qed

subsection \<open>Expired submissions (C7)\<close>

text \<open>
  Claim C7. When the timestamp in the message lies more than 300 seconds before the
  clock reading of \<^verbatim>\<open>submitStar\<close>, the call is rejected with \<open>ExpiredRequest\<close> whatever the
  verifier does with the signature: the staleness check settles the promise before the
  verifier is called.
\<close>

theorem submitStar_expired:
  assumes "message_time msg = Some t"
    and "parseInt (Some (now_seconds now)) = Some c"
    and "c - t > 300"
  shows "fst (submitStar enc digest verify now now' addr msg sig st self) = Some (Inl ExpiredRequest)"
  using assms
  by (auto simp add: submitStar_def elapsed_gt_300_def Let_def
      split: sum.splits option.splits prod.splits)

theorem submitStar_expired_witness:
  "message_time (str ''a1:1000:starRegistry'') = Some 1000
   \<and> parseInt (Some (now_seconds 2000000)) = Some 2000
   \<and> (2000::int) - 1000 > 300
   \<and> demo_verify (str ''a1:1000:starRegistry'') (str ''a1'') (str ''a1+a1:1000:starRegistry'') = Some True
   \<and> fst (submitStar demo_enc demo_digest demo_verify 2000000 2001000
            (str ''a1'') (str ''a1:1000:starRegistry'') (str ''a1+a1:1000:starRegistry'') (str ''sirius'') demo_ledger0)
       = Some (Inl ExpiredRequest)"
proof -
  have 1: "message_time (str ''a1:1000:starRegistry'') = Some 1000" by (simp add: js_eval)
  have 2: "parseInt (Some (now_seconds 2000000)) = Some 2000" by (simp add: js_eval)
  have 3: "(2000::int) - 1000 > 300" by simp
  have 4: "demo_verify (str ''a1:1000:starRegistry'') (str ''a1'') (str ''a1+a1:1000:starRegistry'') = Some True"
    by (simp add: str_def demo_verify_def)
  from submitStar_expired [OF 1 2 3] 1 2 3 4 show ?thesis by simp
qed

subsection \<open>Lookup by hash (C8)\<close>

text \<open>
  Claim C8. \<^verbatim>\<open>getBlockByHash\<close> resolves with the first record of the ledger whose hash is
  the one asked for, and is rejected with \<open>NotFound\<close> when no record has that hash.
\<close>

theorem getBlockByHash_first_or_NotFound:
  "(\<forall>pre b post.
      chain self = pre @ b # post \<and> hash b = Some h \<and> (\<forall>p \<in> set pre. hash p \<noteq> Some h)
      \<longrightarrow> getBlockByHash h self = Some (Inr b))
   \<and> ((\<forall>b \<in> set (chain self). hash b \<noteq> Some h)
      \<longrightarrow> getBlockByHash h self = Some (Inl NotFound))"
proof (intro conjI allI impI)
  fix pre b post
  assume "chain self = pre @ b # post \<and> hash b = Some h \<and> (\<forall>p \<in> set pre. hash p \<noteq> Some h)"
  then have "find (\<lambda>b. hash b = Some h) (chain self) = Some b"
    by (simp add: find_first)
  then show "getBlockByHash h self = Some (Inr b)"
    by (simp add: getBlockByHash_def)
next
  assume "\<forall>b \<in> set (chain self). hash b \<noteq> Some h"
  then have "find (\<lambda>b. hash b = Some h) (chain self) = None"
    by (rule find_none)
  then show "getBlockByHash h self = Some (Inl NotFound)"
    by (simp add: getBlockByHash_def)
qed

theorem getBlockByHash_first_or_NotFound_witness:
  "getBlockByHash (str ''1/2001/a1=sirius/0/1000/genesis/null/null/null'') demo_ledger2
     = Some (Inr (chain demo_ledger2 ! 1))
   \<and> getBlockByHash (str ''unused'') demo_ledger2 = Some (Inl NotFound)"
proof -
  let ?h = "(str ''1/2001/a1=sirius/0/1000/genesis/null/null/null'')"
  have 1: "chain demo_ledger2 = [chain demo_ledger2 ! 0] @ (chain demo_ledger2 ! 1) # [chain demo_ledger2 ! 2]
           \<and> hash (chain demo_ledger2 ! 1) = Some ?h
           \<and> (\<forall>p \<in> set [chain demo_ledger2 ! 0]. hash p \<noteq> Some ?h)"
    by (simp add: str_def demo_ledger2_eq)
  have 2: "\<forall>b \<in> set (chain demo_ledger2). hash b \<noteq> Some (str ''unused'')"
    by (simp add: str_def demo_ledger2_eq)
  from getBlockByHash_first_or_NotFound [of demo_ledger2 ?h] 1
  have a: "getBlockByHash ?h demo_ledger2 = Some (Inr (chain demo_ledger2 ! 1))" by blast
  from getBlockByHash_first_or_NotFound [of demo_ledger2 "(str ''unused'')"] 2
  have b: "getBlockByHash (str ''unused'') demo_ledger2 = Some (Inl NotFound)" by blast
  from a b show ?thesis by simp
qed

subsection \<open>Lookup by address (C9)\<close>


subsection \<open>Messages without a readable timestamp (C10)\<close>

text \<open>
  Claim C10. When the second colon-separated field of the message does not parse as an
  integer, \<^verbatim>\<open>submitStar\<close> is never rejected with \<open>ExpiredRequest\<close>, whatever the clock
  reads, and the verifier decides: when it throws, the call is rejected with its
  exception and the ledger is as before; when it refuses the signature, the call is
  rejected with \<open>InvalidSignature\<close>; and when it accepts the signature, the call is the
  call of \<^verbatim>\<open>_addBlock\<close> on the new block and appends a record holding the payload.
\<close>

theorem submitStar_unparsed_time:
  assumes "message_time msg = None"
  shows "fst (submitStar enc digest verify now now' addr msg sig st self)
           \<noteq> Some (Inl ExpiredRequest)
         \<and> (verify msg addr sig = None \<longrightarrow>
              submitStar enc digest verify now now' addr msg sig st self
                = (Some (Inl VerifierError), self))
         \<and> (verify msg addr sig = Some False \<longrightarrow>
              fst (submitStar enc digest verify now now' addr msg sig st self)
                = Some (Inl InvalidSignature))
         \<and> (verify msg addr sig = Some True \<and> can_append self \<longrightarrow>
              submitStar enc digest verify now now' addr msg sig st self =
                addBlock digest now' (new_Block enc (star_payload addr msg sig st)) self
              \<and> (\<exists>b. chain (snd (submitStar enc digest verify now now' addr msg sig st self))
                        = chain self @ [b]
                      \<and> body b = enc (star_payload addr msg sig st)))"
proof -
  let ?r = "addBlock digest now' (new_Block enc (star_payload addr msg sig st)) self"
  have e: "\<not> elapsed_gt_300 (parseInt (Some (now_seconds now))) (message_time msg)"
    using assms by (simp add: elapsed_gt_300_def split: option.splits)
  have 0: "submitStar enc digest verify now now' addr msg sig st self
             = (Some (Inl VerifierError), self)"
    if "verify msg addr sig = None"
    using that e by (simp add: submitStar_def Let_def)
  have f: "fst (submitStar enc digest verify now now' addr msg sig st self)
             = Some (Inl InvalidSignature)"
    if "verify msg addr sig = Some False"
    using that e
    by (cases ?r) (simp add: submitStar_def Let_def split: option.splits sum.splits)
  have 2: "submitStar enc digest verify now now' addr msg sig st self = ?r"
    if "verify msg addr sig = Some True"
    using that e
    by (cases ?r) (simp add: submitStar_def Let_def split: option.splits sum.splits)
  have 3: "\<exists>b. chain (snd (submitStar enc digest verify now now' addr msg sig st self))
                  = chain self @ [b]
                \<and> body b = enc (star_payload addr msg sig st)"
    if "verify msg addr sig = Some True" and "can_append self"
    using that by (simp add: submitStar_appends)
  have 1: "fst (submitStar enc digest verify now now' addr msg sig st self)
             \<noteq> Some (Inl ExpiredRequest)"
  proof (cases "verify msg addr sig")
    case None
    then show ?thesis by (simp add: 0)
  next
    case (Some v)
    show ?thesis
    proof (cases v)
      case False
      with Some show ?thesis by (simp add: f)
    next
      case True
      with Some have eq: "submitStar enc digest verify now now' addr msg sig st self = ?r"
        by (simp add: 2)
      show ?thesis
      proof
        assume "fst (submitStar enc digest verify now now' addr msg sig st self)
                  = Some (Inl ExpiredRequest)"
        with eq have "fst ?r = Some (Inl ExpiredRequest)" by simp
        then show False by (auto dest: addBlock_error)
      qed
    qed
  qed
  from 0 1 f 2 3 show ?thesis by blast
qed

theorem submitStar_unparsed_time_witness:
  "message_time (str ''a1-long-ago'') = None
   \<and> demo_verify (str ''a1-long-ago'') (str ''a1'') (str ''a1+a1-long-ago'') = Some True
   \<and> can_append demo_ledger0
   \<and> fst (submitStar demo_enc demo_digest demo_verify 2000000 2001000
            (str ''a1'') (str ''a1-long-ago'') (str ''a1+a1-long-ago'') (str ''sirius'')
            demo_ledger0)
       \<noteq> Some (Inl ExpiredRequest)
   \<and> (\<exists>b. chain (snd (submitStar demo_enc demo_digest demo_verify 2000000 2001000
                         (str ''a1'') (str ''a1-long-ago'') (str ''a1+a1-long-ago'')
                         (str ''sirius'') demo_ledger0))
              = chain demo_ledger0 @ [b]
            \<and> body b = demo_enc (star_payload (str ''a1'') (str ''a1-long-ago'')
                                    (str ''a1+a1-long-ago'') (str ''sirius'')))
   \<and> demo_verify (str ''a1-long-ago'') (str ''a1'') (str ''forged'') = Some False
   \<and> fst (submitStar demo_enc demo_digest demo_verify 2000000 2001000
            (str ''a1'') (str ''a1-long-ago'') (str ''forged'') (str ''sirius'') demo_ledger0)
       = Some (Inl InvalidSignature)
   \<and> demo_verify (str ''a1-long-ago'') (str ''a1'') [] = None
   \<and> submitStar demo_enc demo_digest demo_verify 2000000 2001000
            (str ''a1'') (str ''a1-long-ago'') [] (str ''sirius'') demo_ledger0
       = (Some (Inl VerifierError), demo_ledger0)"
proof -
  have 1: "message_time (str ''a1-long-ago'') = None" by (simp add: js_eval)
  have 2: "demo_verify (str ''a1-long-ago'') (str ''a1'') (str ''a1+a1-long-ago'') = Some True"
    by (simp add: str_def demo_verify_def)
  have 3: "demo_verify (str ''a1-long-ago'') (str ''a1'') (str ''forged'') = Some False"
    by (simp add: str_def demo_verify_def)
  have 4: "demo_verify (str ''a1-long-ago'') (str ''a1'') [] = None"
    by (simp add: demo_verify_def)
  from submitStar_unparsed_time [OF 1, of demo_enc demo_digest demo_verify 2000000 2001000
      "str ''a1''" "str ''a1+a1-long-ago''" "str ''sirius''" demo_ledger0]
    2 can_append_demo_ledger0
  have a: "fst (submitStar demo_enc demo_digest demo_verify 2000000 2001000
            (str ''a1'') (str ''a1-long-ago'') (str ''a1+a1-long-ago'') (str ''sirius'')
            demo_ledger0)
       \<noteq> Some (Inl ExpiredRequest)"
    and b: "\<exists>b. chain (snd (submitStar demo_enc demo_digest demo_verify 2000000 2001000
                         (str ''a1'') (str ''a1-long-ago'') (str ''a1+a1-long-ago'')
                         (str ''sirius'') demo_ledger0))
              = chain demo_ledger0 @ [b]
            \<and> body b = demo_enc (star_payload (str ''a1'') (str ''a1-long-ago'')
                                    (str ''a1+a1-long-ago'') (str ''sirius''))"
    by blast+
  from submitStar_unparsed_time [OF 1, of demo_enc demo_digest demo_verify 2000000 2001000
      "str ''a1''" "str ''forged''" "str ''sirius''" demo_ledger0] 3
  have c: "fst (submitStar demo_enc demo_digest demo_verify 2000000 2001000
            (str ''a1'') (str ''a1-long-ago'') (str ''forged'') (str ''sirius'') demo_ledger0)
       = Some (Inl InvalidSignature)"
    by blast
  from submitStar_unparsed_time [OF 1, of demo_enc demo_digest demo_verify 2000000 2001000
      "str ''a1''" "[]" "str ''sirius''" demo_ledger0] 4
  have d: "submitStar demo_enc demo_digest demo_verify 2000000 2001000
            (str ''a1'') (str ''a1-long-ago'') [] (str ''sirius'') demo_ledger0
       = (Some (Inl VerifierError), demo_ledger0)"
    by blast
  from 1 2 3 4 a b c d can_append_demo_ledger0 show ?thesis by blast
qed

end
